theory Spec2Isabelle
  imports Main "HOL-Library.Word"
begin

section \<open>Order matching of the Exchange contract (MixinMatchOrders.sol)\<close>

text \<open>
  The contract works on 256-bit unsigned integers whose \<open>*\<close> wraps around modulo
  \<open>2 ^ 256\<close> (Solidity 0.4.21 has no overflow check), on 160-bit addresses and on
  32-byte hashes. A failed \<open>require\<close> or \<open>assert\<close> reverts the whole call, which is
  the value \<open>None\<close> of an option type here (\<open>Reverted\<close> for \<open>matchOrders\<close>).
\<close>

type_synonym uint256 = "256 word"
type_synonym bytes32 = "256 word"
type_synonym address = "160 word"
type_synonym bytes = "8 word list"

subsection \<open>Data declared outside the file\<close>

text \<open>
  Modelled from the spec: the \<open>Status\<close> enumeration of LibStatus.sol, which the
  source imports and casts to \<open>uint8\<close>. \<open>SUCCESS\<close> and \<open>ORDER_FILLABLE\<close> are the two
  members the source names; the others stand for the outcomes of the status resolver
  (Invalid, Expired, Cancelled, FullyFilled) and for a failed fill computation. The cast
  \<open>uint8(Status.X)\<close> is injective, so statuses are compared as members.
\<close>

datatype Status =
    INVALID
  | SUCCESS
  | ROUNDING_ERROR_TOO_LARGE
  | TAKER_TOKEN_FILL_AMOUNT_TOO_LOW
  | ORDER_FILLABLE
  | ORDER_EXPIRED
  | ORDER_FULLY_FILLED
  | ORDER_CANCELLED

text \<open>
  Modelled from the spec: the \<open>Order\<close> struct of LibOrder.sol (maker address, maker asset
  and amount, taker asset and amount, maker and taker fee, fee recipient, salt,
  expiration). The four fields the source reads keep the names the source uses.
\<close>

record Order =
  makerAddress :: address
  feeRecipientAddress :: address
  makerTokenAddress :: address
  takerTokenAddress :: address
  makerTokenAmount :: uint256
  takerTokenAmount :: uint256
  makerFeeAmount :: uint256
  takerFeeAmount :: uint256
  expirationTimeSeconds :: uint256
  salt :: uint256

text \<open>
  The struct \<open>MatchedOrderFillAmounts\<close> (declared in MMatchOrders.sol) with the eight
  members the source assigns. A fresh memory struct is all zero.
\<close>

record MatchedOrderFillAmounts =
  leftMakerTokenFilledAmount :: uint256
  leftTakerTokenFilledAmount :: uint256
  leftMakerFeeAmountPaid :: uint256
  leftTakerFeeAmountPaid :: uint256
  rightMakerTokenFilledAmount :: uint256
  rightTakerTokenFilledAmount :: uint256
  rightMakerFeeAmountPaid :: uint256
  rightTakerFeeAmountPaid :: uint256

definition emptyMatchedOrderFillAmounts :: MatchedOrderFillAmounts where
  "emptyMatchedOrderFillAmounts =
     \<lparr> leftMakerTokenFilledAmount = 0, leftTakerTokenFilledAmount = 0,
       leftMakerFeeAmountPaid = 0, leftTakerFeeAmountPaid = 0,
       rightMakerTokenFilledAmount = 0, rightTakerTokenFilledAmount = 0,
       rightMakerFeeAmountPaid = 0, rightTakerFeeAmountPaid = 0 \<rparr>"

subsection \<open>Functions the contract inherits\<close>

text \<open>
  The functions of MExchangeCore and MSettlement that the file calls are not part of it.
  They are parameters of the model, collected in one record: whatever they compute, the
  theorems below hold. \<open>getFillAmounts\<close> may revert (\<open>None\<close>) or return a status and four
  amounts; \<open>getOrderStatus\<close> returns hash, status and filled amount;
  \<open>settleMatchedOrders\<close> and \<open>updateFilledState\<close> act on the token balances and on the
  ledger, and here say only whether the call completes (\<open>True\<close>) or reverts.
\<close>

record Exchange =
  msg_sender :: address
  getCurrentContextAddress :: address
  getFillAmounts ::
    "Order \<Rightarrow> uint256 \<Rightarrow> uint256 \<Rightarrow> address
       \<Rightarrow> (Status \<times> uint256 \<times> uint256 \<times> uint256 \<times> uint256) option"
  getOrderStatus :: "Order \<Rightarrow> bytes \<Rightarrow> bytes32 \<times> Status \<times> uint256"
  settleMatchedOrders :: "Order \<Rightarrow> Order \<Rightarrow> MatchedOrderFillAmounts \<Rightarrow> address \<Rightarrow> bool"
  updateFilledState ::
    "Order \<Rightarrow> bytes32 \<Rightarrow> uint256 \<Rightarrow> uint256 \<Rightarrow> uint256 \<Rightarrow> uint256 \<Rightarrow> bool"

text \<open>
  Modelled from the spec: \<open>safeSub\<close> of SafeMath.sol. Arithmetic that leaves the
  fixed-width domain is a fatal error, so a subtraction below zero aborts.
\<close>

definition safeSub :: "uint256 \<Rightarrow> uint256 \<Rightarrow> uint256 option" where
  "safeSub a b = (if b \<le> a then Some (a - b) else None)"

text \<open>
  Modelled from the spec: \<open>getPartialAmount\<close> of LibPartialAmount, the exact
  proportional amount \<open>target \<times> numerator / denominator\<close>, truncated toward zero. A
  product beyond 256 bits and a zero denominator abort.
\<close>

definition getPartialAmount :: "uint256 \<Rightarrow> uint256 \<Rightarrow> uint256 \<Rightarrow> uint256 option" where
  "getPartialAmount numerator denominator target =
     (if denominator = 0 \<or> 2 ^ 256 \<le> unat numerator * unat target then None
      else Some (word_of_nat (unat numerator * unat target div unat denominator)))"

subsection \<open>validateMatchOrdersContextOrRevert\<close>

text \<open>
  Lines 27 to 39. The two \<open>require\<close>s compare a token address of the left order
  with a token amount of the right order, as the source writes them; the address is
  read as the 256-bit number it is. The cross-rate check multiplies in \<open>uint256\<close>.
\<close>

definition validateMatchOrdersContextOrRevert :: "Order \<Rightarrow> Order \<Rightarrow> unit option" where
  "validateMatchOrdersContextOrRevert left right =
     (if \<not> (ucast (makerTokenAddress left) = takerTokenAmount right) then None
      else if \<not> (ucast (takerTokenAddress left) = makerTokenAmount right) then None
      else if \<not> (makerTokenAmount left * makerTokenAmount right
                    \<ge> takerTokenAmount left * takerTokenAmount right) then None
      else Some ())"

subsection \<open>getMatchedFillAmounts\<close>

datatype Constraint = LeftRemaining | RightRemaining

text \<open>Lines 56 to 58: the test that decides which remaining amount is the constraint.\<close>

definition constraintSide :: "Order \<Rightarrow> uint256 \<Rightarrow> uint256 \<Rightarrow> Constraint" where
  "constraintSide right leftRemaining rightRemaining =
     (if makerTokenAmount right * rightRemaining < takerTokenAmount right * leftRemaining
      then LeftRemaining else RightRemaining)"

text \<open>The tuple assignments of lines 60 to 65 and 83 to 88, 106 to 111 and 124 to 129.\<close>

definition assignLeft ::
  "uint256 \<times> uint256 \<times> uint256 \<times> uint256 \<Rightarrow> MatchedOrderFillAmounts \<Rightarrow> MatchedOrderFillAmounts"
where
  "assignLeft amounts m =
     (case amounts of (mk, tk, mf, tf) \<Rightarrow>
        m\<lparr> leftMakerTokenFilledAmount := mk, leftTakerTokenFilledAmount := tk,
           leftMakerFeeAmountPaid := mf, leftTakerFeeAmountPaid := tf \<rparr>)"

definition assignRight ::
  "uint256 \<times> uint256 \<times> uint256 \<times> uint256 \<Rightarrow> MatchedOrderFillAmounts \<Rightarrow> MatchedOrderFillAmounts"
where
  "assignRight amounts m =
     (case amounts of (mk, tk, mf, tf) \<Rightarrow>
        m\<lparr> rightMakerTokenFilledAmount := mk, rightTakerTokenFilledAmount := tk,
           rightMakerFeeAmountPaid := mf, rightTakerFeeAmountPaid := tf \<rparr>)"

text \<open>
  Lines 59 to 102, the branch taken when \<open>leftRemaining\<close> is the constraint.
  \<open>return status\<close> leaves the function with the status and the struct as filled so far.
\<close>

definition fillLeftConstraint ::
  "Exchange \<Rightarrow> Order \<Rightarrow> Order \<Rightarrow> uint256 \<Rightarrow> uint256 \<Rightarrow> (Status \<times> MatchedOrderFillAmounts) option"
where
  "fillLeftConstraint ex left right leftRemaining takerTokenFillAmount =
     (case getFillAmounts ex left leftRemaining takerTokenFillAmount (msg_sender ex) of
        None \<Rightarrow> None
      | Some (status, leftAmounts) \<Rightarrow>
          let m = assignLeft leftAmounts emptyMatchedOrderFillAmounts in
          if status \<noteq> SUCCESS then Some (status, m)
          else
            (case getPartialAmount (makerTokenAmount right) (takerTokenAmount right)
                    (leftMakerTokenFilledAmount m) of
               None \<Rightarrow> None
             | Some rightFill \<Rightarrow>
                 (case getFillAmounts ex right rightFill takerTokenFillAmount (msg_sender ex) of
                    None \<Rightarrow> None
                  | Some (status, rightAmounts) \<Rightarrow>
                      let m = assignRight rightAmounts m in
                      if status \<noteq> SUCCESS then Some (status, m)
                      else if \<not> (rightMakerTokenFilledAmount m \<ge> leftTakerTokenFilledAmount m)
                        then None
                      else Some (status, m))))"

text \<open>
  Lines 104 to 140, the branch taken when \<open>rightRemaining\<close> is the constraint. The
  source's \<open>remaingLeft\<close> is read as the local \<open>leftRemaining\<close> and the bare
  \<open>leftTakerTokenFilledAmount\<close> of the last \<open>assert\<close> as the member of the struct.
\<close>

definition fillRightConstraint ::
  "Exchange \<Rightarrow> Order \<Rightarrow> Order \<Rightarrow> uint256 \<Rightarrow> uint256 \<Rightarrow> uint256
     \<Rightarrow> (Status \<times> MatchedOrderFillAmounts) option"
where
  "fillRightConstraint ex left right leftRemaining rightRemaining takerTokenFillAmount =
     (case getFillAmounts ex right rightRemaining takerTokenFillAmount (msg_sender ex) of
        None \<Rightarrow> None
      | Some (status, rightAmounts) \<Rightarrow>
          let m = assignRight rightAmounts emptyMatchedOrderFillAmounts in
          if status \<noteq> SUCCESS then Some (status, m)
          else if \<not> (rightMakerTokenFilledAmount m \<le> leftRemaining) then None
          else
            (case getFillAmounts ex left (rightMakerTokenFilledAmount m) takerTokenFillAmount
                    (msg_sender ex) of
               None \<Rightarrow> None
             | Some (status, leftAmounts) \<Rightarrow>
                 let m = assignLeft leftAmounts m in
                 if status \<noteq> SUCCESS then Some (status, m)
                 else if \<not> (rightMakerTokenFilledAmount m = leftTakerTokenFilledAmount m)
                   then None
                 else Some (status, m)))"

text \<open>Lines 42 to 141.\<close>

definition getMatchedFillAmounts ::
  "Exchange \<Rightarrow> Order \<Rightarrow> Order \<Rightarrow> uint256 \<Rightarrow> uint256 \<Rightarrow> uint256
     \<Rightarrow> (Status \<times> MatchedOrderFillAmounts) option"
where
  "getMatchedFillAmounts ex left right leftFilledAmount rightFilledAmount takerTokenFillAmount =
     (case safeSub (takerTokenAmount left) leftFilledAmount of
        None \<Rightarrow> None
      | Some leftRemaining \<Rightarrow>
          (case safeSub (takerTokenAmount right) rightFilledAmount of
             None \<Rightarrow> None
           | Some rightRemaining \<Rightarrow>
               (case constraintSide right leftRemaining rightRemaining of
                  LeftRemaining \<Rightarrow>
                    fillLeftConstraint ex left right leftRemaining takerTokenFillAmount
                | RightRemaining \<Rightarrow>
                    fillRightConstraint ex left right leftRemaining rightRemaining
                      takerTokenFillAmount)))"

subsection \<open>matchOrders\<close>

text \<open>
  The local variables of \<open>matchOrders\<close> that the status queries assign, the two return
  variables among them. All start at zero, \<open>status\<close> at the first member of the
  enumeration.
\<close>

record Locals =
  status :: Status
  leftOrderHash :: bytes32
  rightOrderHash :: bytes32
  leftFilledAmount :: uint256
  rightFilledAmount :: uint256

definition initialLocals :: Locals where
  "initialLocals =
     \<lparr> status = INVALID, leftOrderHash = 0, rightOrderHash = 0,
       leftFilledAmount = 0, rightFilledAmount = 0 \<rparr>"

text \<open>Lines 160 to 163, the tuple assignment under "Get left status".\<close>

definition leftStatusQuery :: "Exchange \<Rightarrow> Order \<Rightarrow> bytes \<Rightarrow> Locals \<Rightarrow> Locals" where
  "leftStatusQuery ex left leftSignature vars =
     (case getOrderStatus ex left leftSignature of
        (h, st, f) \<Rightarrow> vars\<lparr> leftOrderHash := h, status := st, leftFilledAmount := f \<rparr>)"

text \<open>
  Lines 171 to 174, the tuple assignment under "Get right status": the source queries
  \<open>left\<close> with \<open>leftSignature\<close> again and assigns \<open>leftOrderHash\<close>, \<open>status\<close> and
  \<open>rightFilledAmount\<close>. The right order and its signature are in scope and not used.
\<close>

definition rightStatusQuery ::
  "Exchange \<Rightarrow> Order \<Rightarrow> Order \<Rightarrow> bytes \<Rightarrow> bytes \<Rightarrow> Locals \<Rightarrow> Locals"
where
  "rightStatusQuery ex left right leftSignature rightSignature vars =
     (case getOrderStatus ex left leftSignature of
        (h, st, f) \<Rightarrow> vars\<lparr> leftOrderHash := h, status := st, rightFilledAmount := f \<rparr>)"

text \<open>
  The same step as the sentence "its results are written into the left order's hash and
  filled-amount variables" describes it: the result of the query goes to
  \<open>leftOrderHash\<close>, \<open>status\<close> and \<open>leftFilledAmount\<close>. It is not the source's step; it is
  here to be compared with \<open>rightStatusQuery\<close>.
\<close>

definition rightStatusQuery_as_worded ::
  "Exchange \<Rightarrow> Order \<Rightarrow> Order \<Rightarrow> bytes \<Rightarrow> bytes \<Rightarrow> Locals \<Rightarrow> Locals"
where
  "rightStatusQuery_as_worded ex left right leftSignature rightSignature vars =
     (case getOrderStatus ex left leftSignature of
        (h, st, f) \<Rightarrow> vars\<lparr> leftOrderHash := h, status := st, leftFilledAmount := f \<rparr>)"

text \<open>
  What the contract does that an observer sees: the event of a rejection, the request
  to settle and the two writes to the ledger of filled amounts.
\<close>

datatype Effect =
    ExchangeStatus Status bytes32
  | SettleMatchedOrders Order Order MatchedOrderFillAmounts address
  | UpdateFilledState Order bytes32 uint256 uint256 uint256 uint256

fun isLedgerUpdate :: "Effect \<Rightarrow> bool" where
  "isLedgerUpdate (UpdateFilledState order orderHash mk tk mf tf) = True"
| "isLedgerUpdate e = False"

text \<open>
  A call either reverts, which undoes every effect, or returns the two return variables
  after the listed effects.
\<close>

datatype Outcome = Reverted | Returned uint256 uint256 "Effect list"

text \<open>
  Lines 147 to 210. \<open>return 0\<close> is read as returning zero for both return variables.
  The call of line 188 passes four arguments to the five-parameter
  \<open>getMatchedFillAmounts\<close>; the missing \<open>takerTokenFillAmount\<close> is a parameter of the
  model. The status that call returns is stored and not looked at again.
\<close>

definition matchOrders ::
  "Exchange \<Rightarrow> Order \<Rightarrow> Order \<Rightarrow> bytes \<Rightarrow> bytes \<Rightarrow> uint256 \<Rightarrow> Outcome"
where
  "matchOrders ex left right leftSignature rightSignature takerTokenFillAmount =
     (let vars = leftStatusQuery ex left leftSignature initialLocals in
      if status vars \<noteq> ORDER_FILLABLE
      then Returned 0 0 [ExchangeStatus (status vars) (leftOrderHash vars)]
      else
        let vars = rightStatusQuery ex left right leftSignature rightSignature vars in
        if status vars \<noteq> ORDER_FILLABLE
        then Returned 0 0 [ExchangeStatus (status vars) (leftOrderHash vars)]
        else
          let takerAddress = getCurrentContextAddress ex in
          (case validateMatchOrdersContextOrRevert left right of
             None \<Rightarrow> Reverted
           | Some _ \<Rightarrow>
               (case getMatchedFillAmounts ex left right (leftFilledAmount vars)
                       (rightFilledAmount vars) takerTokenFillAmount of
                  None \<Rightarrow> Reverted
                | Some (st, m) \<Rightarrow>
                    let vars = vars\<lparr> status := st \<rparr> in
                    if \<not> settleMatchedOrders ex left right m takerAddress then Reverted
                    else if \<not> updateFilledState ex left (leftOrderHash vars)
                                (leftMakerTokenFilledAmount m) (leftTakerTokenFilledAmount m)
                                (leftMakerFeeAmountPaid m) (leftTakerFeeAmountPaid m)
                      then Reverted
                    else if \<not> updateFilledState ex right (rightOrderHash vars)
                                (rightMakerTokenFilledAmount m) (rightTakerTokenFilledAmount m)
                                (rightMakerFeeAmountPaid m) (rightTakerFeeAmountPaid m)
                      then Reverted
                    else
                      Returned (leftFilledAmount vars) (rightFilledAmount vars)
                        [ SettleMatchedOrders left right m takerAddress,
                          UpdateFilledState left (leftOrderHash vars)
                            (leftMakerTokenFilledAmount m) (leftTakerTokenFilledAmount m)
                            (leftMakerFeeAmountPaid m) (leftTakerFeeAmountPaid m),
                          UpdateFilledState right (rightOrderHash vars)
                            (rightMakerTokenFilledAmount m) (rightTakerTokenFilledAmount m)
                            (rightMakerFeeAmountPaid m) (rightTakerFeeAmountPaid m) ])))"

subsection \<open>A sample instance of the inherited functions\<close>

text \<open>
  Modelled from the spec: \<open>getFillAmounts\<close> of MixinExchangeCore.sol, which is not in
  the file. The second argument is the taker amount to fill; the maker amount and the
  two fees are the proportional amounts \<open>amount \<times> numerator / order.takerTokenAmount\<close>,
  truncated toward zero; a fill that comes out as zero is reported by a status.
\<close>

definition getFillAmounts_spec ::
  "Order \<Rightarrow> uint256 \<Rightarrow> uint256 \<Rightarrow> address
     \<Rightarrow> (Status \<times> uint256 \<times> uint256 \<times> uint256 \<times> uint256) option"
where
  "getFillAmounts_spec order fillAmount takerTokenFillAmount taker =
     (case getPartialAmount fillAmount (takerTokenAmount order) (makerTokenAmount order) of
        None \<Rightarrow> None
      | Some mk \<Rightarrow>
     (case getPartialAmount fillAmount (takerTokenAmount order) (makerFeeAmount order) of
        None \<Rightarrow> None
      | Some mf \<Rightarrow>
     (case getPartialAmount fillAmount (takerTokenAmount order) (takerFeeAmount order) of
        None \<Rightarrow> None
      | Some tf \<Rightarrow>
          if fillAmount = 0 \<or> mk = 0 then Some (TAKER_TOKEN_FILL_AMOUNT_TOO_LOW, 0, 0, 0, 0)
          else Some (SUCCESS, mk, fillAmount, mf, tf))))"

text \<open>
  Modelled from the spec: \<open>getOrderStatus\<close> of MixinExchangeCore.sol, after the status
  resolver of the spec, over a ledger \<open>filled\<close>: a zero amount is Invalid, an order at
  or past its expiration is Expired, a filled order is FullyFilled, any other is
  Fillable. In this instance the clock reads 100, every signature verifies, nothing is
  cancelled, and the salt stands for the order hash.
\<close>

definition getOrderStatus_spec ::
  "(bytes32 \<Rightarrow> uint256) \<Rightarrow> Order \<Rightarrow> bytes \<Rightarrow> bytes32 \<times> Status \<times> uint256"
where
  "getOrderStatus_spec filled order signature =
     (let orderHash = salt order; filledAmount = filled orderHash in
      (orderHash,
       if makerTokenAmount order = 0 \<or> takerTokenAmount order = 0 then INVALID
       else if expirationTimeSeconds order \<le> 100 then ORDER_EXPIRED
       else if takerTokenAmount order \<le> filledAmount then ORDER_FULLY_FILLED
       else ORDER_FILLABLE,
       filledAmount))"

definition sampleExchange :: "(bytes32 \<Rightarrow> uint256) \<Rightarrow> Exchange" where
  "sampleExchange filled =
     \<lparr> msg_sender = 9, getCurrentContextAddress = 9,
       getFillAmounts = getFillAmounts_spec,
       getOrderStatus = getOrderStatus_spec filled,
       settleMatchedOrders = (\<lambda>left right m taker. True),
       updateFilledState = (\<lambda>order orderHash mk tk mf tf. True) \<rparr>"

text \<open>An order that trades \<open>mkAmount\<close> of \<open>mkToken\<close> for \<open>tkAmount\<close> of \<open>tkToken\<close>.\<close>

definition sampleOrder :: "uint256 \<Rightarrow> address \<Rightarrow> uint256 \<Rightarrow> address \<Rightarrow> uint256 \<Rightarrow> uint256 \<Rightarrow> Order" where
  "sampleOrder orderSalt mkToken mkAmount tkToken tkAmount expiration =
     \<lparr> makerAddress = 1, feeRecipientAddress = 0,
       makerTokenAddress = mkToken, takerTokenAddress = tkToken,
       makerTokenAmount = mkAmount, takerTokenAmount = tkAmount,
       makerFeeAmount = 0, takerFeeAmount = 0,
       expirationTimeSeconds = expiration, salt = orderSalt \<rparr>"

text \<open>Two ledgers of filled amounts: nothing filled, and an order (hash 2) with one unit filled
  beside an order (hash 3) with five.\<close>

definition emptyLedger :: "bytes32 \<Rightarrow> uint256" where
  "emptyLedger orderHash = 0"

definition sampleLedger :: "bytes32 \<Rightarrow> uint256" where
  "sampleLedger orderHash = (if orderHash = 2 then 1 else if orderHash = 3 then 5 else 0)"

section \<open>Signing an order hash (ZeroEx.signOrderHashAsync)\<close>


text \<open>
  The errors the method throws: its own \<open>InvalidSignature\<close>, the error of a failed
  \<open>assert\<close> (with the name of the variable checked), whatever the provider rejects the
  signing request with, and whatever a helper called without a guard throws (a parser
  of \<open>signatureUtils\<close> on a raw signature of the wrong length, for one).
\<close>

datatype ZeroExError =
    InvalidSignature
  | AssertionFailed string
  | ProviderError string
  | HelperError string











section \<open>Properties of the order matching\<close>

lemmas sample_defs =
  sampleExchange_def sampleOrder_def getFillAmounts_spec_def getOrderStatus_spec_def
  getPartialAmount_def safeSub_def emptyLedger_def sampleLedger_def

lemmas fill_defs =
  getMatchedFillAmounts_def constraintSide_def fillLeftConstraint_def fillRightConstraint_def
  assignLeft_def assignRight_def emptyMatchedOrderFillAmounts_def

lemmas match_defs =
  matchOrders_def leftStatusQuery_def rightStatusQuery_def initialLocals_def
  validateMatchOrdersContextOrRevert_def

lemmas word_nat_simps = word_le_nat_alt word_less_nat_alt unat_word_ariths

subsection \<open>The two branches of getMatchedFillAmounts\<close>

lemma fillLeftConstraint_success:
  assumes "fillLeftConstraint ex left right lr t = Some (SUCCESS, m)"
  shows "getFillAmounts ex left lr t (msg_sender ex) =
           Some (SUCCESS, leftMakerTokenFilledAmount m, leftTakerTokenFilledAmount m,
                 leftMakerFeeAmountPaid m, leftTakerFeeAmountPaid m)
         \<and> (\<exists>rightFill.
              getPartialAmount (makerTokenAmount right) (takerTokenAmount right)
                (leftMakerTokenFilledAmount m) = Some rightFill
              \<and> getFillAmounts ex right rightFill t (msg_sender ex) =
                  Some (SUCCESS, rightMakerTokenFilledAmount m, rightTakerTokenFilledAmount m,
                        rightMakerFeeAmountPaid m, rightTakerFeeAmountPaid m))
         \<and> leftTakerTokenFilledAmount m \<le> rightMakerTokenFilledAmount m"
  using assms
  by (auto simp: fillLeftConstraint_def assignLeft_def assignRight_def
        emptyMatchedOrderFillAmounts_def Let_def
      split: option.splits prod.splits if_splits)

lemma fillRightConstraint_success:
  assumes "fillRightConstraint ex left right lr rr t = Some (SUCCESS, m)"
  shows "getFillAmounts ex right rr t (msg_sender ex) =
           Some (SUCCESS, rightMakerTokenFilledAmount m, rightTakerTokenFilledAmount m,
                 rightMakerFeeAmountPaid m, rightTakerFeeAmountPaid m)
         \<and> getFillAmounts ex left (rightMakerTokenFilledAmount m) t (msg_sender ex) =
             Some (SUCCESS, leftMakerTokenFilledAmount m, leftTakerTokenFilledAmount m,
                   leftMakerFeeAmountPaid m, leftTakerFeeAmountPaid m)
         \<and> rightMakerTokenFilledAmount m \<le> lr
         \<and> leftTakerTokenFilledAmount m = rightMakerTokenFilledAmount m"
  using assms
  by (auto simp: fillRightConstraint_def assignLeft_def assignRight_def
        emptyMatchedOrderFillAmounts_def Let_def
      split: option.splits prod.splits if_splits)

lemma getPartialAmount_Some:
  assumes "getPartialAmount n d t = Some a"
  shows "d \<noteq> 0 \<and> unat n * unat t < 2 ^ 256 \<and> unat a = unat n * unat t div unat d"
proof -
  from assms have d: "d \<noteq> 0" and b: "unat n * unat t < 2 ^ 256"
    and a: "a = word_of_nat (unat n * unat t div unat d)"
    by (auto simp: getPartialAmount_def split: if_splits)
  have "unat n * unat t div unat d < 2 ^ 256"
    by (rule le_less_trans [OF div_le_dividend b])
  then have "unat n * unat t div unat d < 2 ^ LENGTH(256)" by simp
  then have "unat (word_of_nat (unat n * unat t div unat d) :: uint256)
               = unat n * unat t div unat d"
    by (simp add: unat_of_nat)
  with a d b show ?thesis by simp
qed

lemma getMatchedFillAmounts_branch:
  assumes "getMatchedFillAmounts ex left right lf rf t = Some res"
  shows "\<exists>lr rr. safeSub (takerTokenAmount left) lf = Some lr
           \<and> safeSub (takerTokenAmount right) rf = Some rr
           \<and> (case constraintSide right lr rr of
                 LeftRemaining \<Rightarrow> fillLeftConstraint ex left right lr t = Some res
               | RightRemaining \<Rightarrow> fillRightConstraint ex left right lr rr t = Some res)"
  using assms
  by (auto simp: getMatchedFillAmounts_def split: option.splits Constraint.splits)

text \<open>
  While neither product leaves the 256-bit range, the test of lines 56 to 58 compares
  the true cross-products.
\<close>

lemma constraintSide_exact:
  assumes "unat (makerTokenAmount right) * unat rr < 2 ^ 256"
    and "unat (takerTokenAmount right) * unat lr < 2 ^ 256"
  shows "constraintSide right lr rr = LeftRemaining \<longleftrightarrow>
           unat (makerTokenAmount right) * unat rr < unat (takerTokenAmount right) * unat lr"
proof -
  have 1: "unat (makerTokenAmount right * rr) = unat (makerTokenAmount right) * unat rr"
    using assms(1) by (simp add: unat_mult_lem [symmetric])
  have 2: "unat (takerTokenAmount right * lr) = unat (takerTokenAmount right) * unat lr"
    using assms(2) by (simp add: unat_mult_lem [symmetric])
  show ?thesis
    by (simp add: constraintSide_def word_less_nat_alt 1 2)
qed

subsection \<open>Conservation between the two fills\<close>

text \<open>
  C1, as the code has it. Whenever \<open>getMatchedFillAmounts\<close> returns with status SUCCESS,
  the maker amount the right order releases is at least the taker amount the left order
  consumes, so the residual of the truncation is never negative; when the right order is
  the constraint the two amounts are equal and the residual is zero. Which party keeps
  the residual is decided in \<open>settleMatchedOrders\<close>, outside this function.
\<close>

theorem matched_fill_conservation:
  assumes "getMatchedFillAmounts ex left right lf rf t = Some (SUCCESS, m)"
    and "safeSub (takerTokenAmount left) lf = Some lr"
    and "safeSub (takerTokenAmount right) rf = Some rr"
  shows "leftTakerTokenFilledAmount m \<le> rightMakerTokenFilledAmount m
         \<and> (constraintSide right lr rr = RightRemaining
             \<longrightarrow> leftTakerTokenFilledAmount m = rightMakerTokenFilledAmount m)"
proof -
  from getMatchedFillAmounts_branch [OF assms(1)] assms(2,3)
  have branch:
    "case constraintSide right lr rr of
       LeftRemaining \<Rightarrow> fillLeftConstraint ex left right lr t = Some (SUCCESS, m)
     | RightRemaining \<Rightarrow> fillRightConstraint ex left right lr rr t = Some (SUCCESS, m)"
    by auto
  show ?thesis
  proof (cases "constraintSide right lr rr")
    case LeftRemaining
    with branch have "fillLeftConstraint ex left right lr t = Some (SUCCESS, m)" by simp
    from fillLeftConstraint_success [OF this] LeftRemaining show ?thesis by simp
  next
    case RightRemaining
    with branch have "fillRightConstraint ex left right lr rr t = Some (SUCCESS, m)" by simp
    from fillRightConstraint_success [OF this] show ?thesis by simp
  qed
qed

theorem matched_fill_conservation_witness:
  "getMatchedFillAmounts (sampleExchange emptyLedger)
     (sampleOrder 1 10 20 20 10 200) (sampleOrder 2 20 10 10 20 200) 0 0 0
   = Some (SUCCESS,
       \<lparr> leftMakerTokenFilledAmount = 20, leftTakerTokenFilledAmount = 10,
         leftMakerFeeAmountPaid = 0, leftTakerFeeAmountPaid = 0,
         rightMakerTokenFilledAmount = 10, rightTakerTokenFilledAmount = 20,
         rightMakerFeeAmountPaid = 0, rightTakerFeeAmountPaid = 0 \<rparr>)
   \<and> safeSub (takerTokenAmount (sampleOrder 1 10 20 20 10 200)) 0 = Some 10
   \<and> safeSub (takerTokenAmount (sampleOrder 2 20 10 10 20 200)) 0 = Some 20
   \<and> constraintSide (sampleOrder 2 20 10 10 20 200) 10 20 = RightRemaining
   \<and> (10 :: uint256) \<le> 10"
proof -
  have run:
    "getMatchedFillAmounts (sampleExchange emptyLedger)
       (sampleOrder 1 10 20 20 10 200) (sampleOrder 2 20 10 10 20 200) 0 0 0
     = Some (SUCCESS,
         \<lparr> leftMakerTokenFilledAmount = 20, leftTakerTokenFilledAmount = 10,
           leftMakerFeeAmountPaid = 0, leftTakerFeeAmountPaid = 0,
           rightMakerTokenFilledAmount = 10, rightTakerTokenFilledAmount = 20,
           rightMakerFeeAmountPaid = 0, rightTakerFeeAmountPaid = 0 \<rparr>)"
    by (simp add: sample_defs fill_defs)
  have l: "safeSub (takerTokenAmount (sampleOrder 1 10 20 20 10 200)) 0 = Some 10"
    by (simp add: safeSub_def sampleOrder_def)
  have r: "safeSub (takerTokenAmount (sampleOrder 2 20 10 10 20 200)) 0 = Some 20"
    by (simp add: safeSub_def sampleOrder_def)
  have c: "constraintSide (sampleOrder 2 20 10 10 20 200) 10 20 = RightRemaining"
    by (simp add: constraintSide_def sampleOrder_def)
  from matched_fill_conservation [OF run l r] run l r c show ?thesis by simp
qed

text \<open>
  C1, as the claim words it, fails when the right order is the constraint: there the
  side that is not constrained is the left one, and the maker amount it releases can be
  smaller than the taker amount the right order consumes. The two orders below have
  inverse asset pairs and equal cross-products, both are Fillable, one unit of the right
  order is filled already; with fills that are proportional and truncated the match
  succeeds, the left order releases 2000 and the right order consumes 2001.
\<close>

theorem right_constraint_release_counterexample:
  "makerTokenAddress (sampleOrder 1 10 2000 20 1000 200)
     = takerTokenAddress (sampleOrder 2 20 1001 10 2002 200)
   \<and> takerTokenAddress (sampleOrder 1 10 2000 20 1000 200)
     = makerTokenAddress (sampleOrder 2 20 1001 10 2002 200)
   \<and> unat (takerTokenAmount (sampleOrder 1 10 2000 20 1000 200))
       * unat (takerTokenAmount (sampleOrder 2 20 1001 10 2002 200))
     \<le> unat (makerTokenAmount (sampleOrder 1 10 2000 20 1000 200))
       * unat (makerTokenAmount (sampleOrder 2 20 1001 10 2002 200))
   \<and> getOrderStatus (sampleExchange sampleLedger) (sampleOrder 1 10 2000 20 1000 200) []
     = (1, ORDER_FILLABLE, 0)
   \<and> getOrderStatus (sampleExchange sampleLedger) (sampleOrder 2 20 1001 10 2002 200) []
     = (2, ORDER_FILLABLE, 1)
   \<and> constraintSide (sampleOrder 2 20 1001 10 2002 200) 1000 2001 = RightRemaining
   \<and> map_option fst
       (getMatchedFillAmounts (sampleExchange sampleLedger)
          (sampleOrder 1 10 2000 20 1000 200) (sampleOrder 2 20 1001 10 2002 200) 0 1 0)
     = Some SUCCESS
   \<and> map_option (leftMakerTokenFilledAmount \<circ> snd)
       (getMatchedFillAmounts (sampleExchange sampleLedger)
          (sampleOrder 1 10 2000 20 1000 200) (sampleOrder 2 20 1001 10 2002 200) 0 1 0)
     = Some 2000
   \<and> map_option (rightTakerTokenFilledAmount \<circ> snd)
       (getMatchedFillAmounts (sampleExchange sampleLedger)
          (sampleOrder 1 10 2000 20 1000 200) (sampleOrder 2 20 1001 10 2002 200) 0 1 0)
     = Some 2001
   \<and> (2000 :: uint256) < 2001"
  by (simp add: sample_defs fill_defs word_le_nat_alt)

subsection \<open>Which remaining amount is the constraint\<close>

text \<open>
  C5. The claim compares the cross-products as numbers; the source multiplies in
  \<open>uint256\<close> with no overflow check (line 55: "TODO: SafeMath"). For a right order that
  gives \<open>2 ^ 255\<close> for 2, nothing filled, and a left order with 1 remaining, the product
  \<open>2 ^ 255 \<times> 2\<close> wraps to 0, which is below \<open>2 \<times> 1\<close>: the source takes the left order as
  the constraint although the true product \<open>2 ^ 256\<close> is not below 2.
\<close>

theorem constraintSide_wrapped_product:
  "safeSub (takerTokenAmount (sampleOrder 2 20 (2 ^ 255) 10 2 200)) 0 = Some 2
   \<and> constraintSide (sampleOrder 2 20 (2 ^ 255) 10 2 200) 1 2 = LeftRemaining
   \<and> \<not> (unat (makerTokenAmount (sampleOrder 2 20 (2 ^ 255) 10 2 200)) * unat (2 :: uint256)
          < unat (takerTokenAmount (sampleOrder 2 20 (2 ^ 255) 10 2 200)) * unat (1 :: uint256))"
  by (simp add: constraintSide_def sampleOrder_def safeSub_def word_nat_simps)

subsection \<open>The fills of the two branches\<close>

text \<open>
  C6. When \<open>leftRemaining\<close> is the constraint and the match succeeds, the left order was
  filled by \<open>getFillAmounts\<close> with \<open>leftRemaining\<close> as the amount, the fill amount of the
  right order is \<open>right.makerTokenAmount \<times> leftMakerTokenFilledAmount /
  right.takerTokenAmount\<close> computed exactly (the product fits 256 bits, the divisor is
  not zero) and truncated, and the right order was filled with that amount.
\<close>

theorem left_constraint_fill:
  assumes "safeSub (takerTokenAmount left) lf = Some lr"
    and "safeSub (takerTokenAmount right) rf = Some rr"
    and "constraintSide right lr rr = LeftRemaining"
    and "getMatchedFillAmounts ex left right lf rf t = Some (SUCCESS, m)"
  shows "getFillAmounts ex left lr t (msg_sender ex) =
           Some (SUCCESS, leftMakerTokenFilledAmount m, leftTakerTokenFilledAmount m,
                 leftMakerFeeAmountPaid m, leftTakerFeeAmountPaid m)
         \<and> takerTokenAmount right \<noteq> 0
         \<and> unat (makerTokenAmount right) * unat (leftMakerTokenFilledAmount m) < 2 ^ 256
         \<and> (\<exists>rightFill.
               unat rightFill =
                 unat (makerTokenAmount right) * unat (leftMakerTokenFilledAmount m)
                   div unat (takerTokenAmount right)
               \<and> getFillAmounts ex right rightFill t (msg_sender ex) =
                   Some (SUCCESS, rightMakerTokenFilledAmount m, rightTakerTokenFilledAmount m,
                         rightMakerFeeAmountPaid m, rightTakerFeeAmountPaid m))"
proof -
  from getMatchedFillAmounts_branch [OF assms(4)] assms(1,2,3)
  have "fillLeftConstraint ex left right lr t = Some (SUCCESS, m)"
    by auto
  from fillLeftConstraint_success [OF this]
  obtain rightFill where
    l: "getFillAmounts ex left lr t (msg_sender ex) =
          Some (SUCCESS, leftMakerTokenFilledAmount m, leftTakerTokenFilledAmount m,
                leftMakerFeeAmountPaid m, leftTakerFeeAmountPaid m)"
    and p: "getPartialAmount (makerTokenAmount right) (takerTokenAmount right)
              (leftMakerTokenFilledAmount m) = Some rightFill"
    and r: "getFillAmounts ex right rightFill t (msg_sender ex) =
              Some (SUCCESS, rightMakerTokenFilledAmount m, rightTakerTokenFilledAmount m,
                    rightMakerFeeAmountPaid m, rightTakerFeeAmountPaid m)"
    by blast
  from getPartialAmount_Some [OF p] l r show ?thesis by blast
qed

theorem left_constraint_fill_witness:
  "safeSub (takerTokenAmount (sampleOrder 1 3 2 5 2 200)) 0 = Some 2
   \<and> safeSub (takerTokenAmount (sampleOrder 2 5 5 3 3 200)) 2 = Some 1
   \<and> constraintSide (sampleOrder 2 5 5 3 3 200) 2 1 = LeftRemaining
   \<and> getMatchedFillAmounts (sampleExchange emptyLedger)
        (sampleOrder 1 3 2 5 2 200) (sampleOrder 2 5 5 3 3 200) 0 2 0
      = Some (SUCCESS,
          \<lparr> leftMakerTokenFilledAmount = 2, leftTakerTokenFilledAmount = 2,
            leftMakerFeeAmountPaid = 0, leftTakerFeeAmountPaid = 0,
            rightMakerTokenFilledAmount = 5, rightTakerTokenFilledAmount = 3,
            rightMakerFeeAmountPaid = 0, rightTakerFeeAmountPaid = 0 \<rparr>)
   \<and> getFillAmounts (sampleExchange emptyLedger) (sampleOrder 1 3 2 5 2 200) 2 0 9
      = Some (SUCCESS, 2, 2, 0, 0)
   \<and> unat (5 :: uint256) * unat (2 :: uint256) div unat (3 :: uint256) = 3
   \<and> getFillAmounts (sampleExchange emptyLedger) (sampleOrder 2 5 5 3 3 200) 3 0 9
      = Some (SUCCESS, 5, 3, 0, 0)"
proof -
  have l: "safeSub (takerTokenAmount (sampleOrder 1 3 2 5 2 200)) 0 = Some 2"
    by (simp add: safeSub_def sampleOrder_def)
  have r: "safeSub (takerTokenAmount (sampleOrder 2 5 5 3 3 200)) 2 = Some 1"
    by (simp add: safeSub_def sampleOrder_def word_nat_simps)
  have c: "constraintSide (sampleOrder 2 5 5 3 3 200) 2 1 = LeftRemaining"
    by (simp add: constraintSide_def sampleOrder_def)
  have run:
    "getMatchedFillAmounts (sampleExchange emptyLedger)
       (sampleOrder 1 3 2 5 2 200) (sampleOrder 2 5 5 3 3 200) 0 2 0
     = Some (SUCCESS,
         \<lparr> leftMakerTokenFilledAmount = 2, leftTakerTokenFilledAmount = 2,
           leftMakerFeeAmountPaid = 0, leftTakerFeeAmountPaid = 0,
           rightMakerTokenFilledAmount = 5, rightTakerTokenFilledAmount = 3,
           rightMakerFeeAmountPaid = 0, rightTakerFeeAmountPaid = 0 \<rparr>)"
    by (simp add: sample_defs fill_defs word_nat_simps)
  have f1: "getFillAmounts (sampleExchange emptyLedger) (sampleOrder 1 3 2 5 2 200) 2 0 9
      = Some (SUCCESS, 2, 2, 0, 0)"
    by (simp add: sample_defs)
  have f2: "getFillAmounts (sampleExchange emptyLedger) (sampleOrder 2 5 5 3 3 200) 3 0 9
      = Some (SUCCESS, 5, 3, 0, 0)"
    by (simp add: sample_defs)
  from left_constraint_fill [OF l r c run] l r c run f1 f2 show ?thesis by simp
qed

text \<open>
  C7. When \<open>rightRemaining\<close> is the constraint and the match succeeds, the right order
  was filled by \<open>getFillAmounts\<close> with \<open>rightRemaining\<close> as the amount, the left order was
  filled with the maker amount that fill returned, and the taker amount filled of the
  left order equals the maker amount filled of the right order.
\<close>

theorem right_constraint_fill:
  assumes "safeSub (takerTokenAmount left) lf = Some lr"
    and "safeSub (takerTokenAmount right) rf = Some rr"
    and "constraintSide right lr rr = RightRemaining"
    and "getMatchedFillAmounts ex left right lf rf t = Some (SUCCESS, m)"
  shows "getFillAmounts ex right rr t (msg_sender ex) =
           Some (SUCCESS, rightMakerTokenFilledAmount m, rightTakerTokenFilledAmount m,
                 rightMakerFeeAmountPaid m, rightTakerFeeAmountPaid m)
         \<and> getFillAmounts ex left (rightMakerTokenFilledAmount m) t (msg_sender ex) =
             Some (SUCCESS, leftMakerTokenFilledAmount m, leftTakerTokenFilledAmount m,
                   leftMakerFeeAmountPaid m, leftTakerFeeAmountPaid m)
         \<and> leftTakerTokenFilledAmount m = rightMakerTokenFilledAmount m"
proof -
  from getMatchedFillAmounts_branch [OF assms(4)] assms(1,2,3)
  have "fillRightConstraint ex left right lr rr t = Some (SUCCESS, m)"
    by auto
  from fillRightConstraint_success [OF this] show ?thesis by simp
qed

theorem right_constraint_fill_witness:
  "safeSub (takerTokenAmount (sampleOrder 1 10 2000 20 1000 200)) 0 = Some 1000
   \<and> safeSub (takerTokenAmount (sampleOrder 2 20 1001 10 2002 200)) 1 = Some 2001
   \<and> constraintSide (sampleOrder 2 20 1001 10 2002 200) 1000 2001 = RightRemaining
   \<and> getMatchedFillAmounts (sampleExchange sampleLedger)
        (sampleOrder 1 10 2000 20 1000 200) (sampleOrder 2 20 1001 10 2002 200) 0 1 0
      = Some (SUCCESS,
          \<lparr> leftMakerTokenFilledAmount = 2000, leftTakerTokenFilledAmount = 1000,
            leftMakerFeeAmountPaid = 0, leftTakerFeeAmountPaid = 0,
            rightMakerTokenFilledAmount = 1000, rightTakerTokenFilledAmount = 2001,
            rightMakerFeeAmountPaid = 0, rightTakerFeeAmountPaid = 0 \<rparr>)
   \<and> getFillAmounts (sampleExchange sampleLedger) (sampleOrder 2 20 1001 10 2002 200) 2001 0 9
      = Some (SUCCESS, 1000, 2001, 0, 0)
   \<and> getFillAmounts (sampleExchange sampleLedger) (sampleOrder 1 10 2000 20 1000 200) 1000 0 9
      = Some (SUCCESS, 2000, 1000, 0, 0)"
proof -
  have l: "safeSub (takerTokenAmount (sampleOrder 1 10 2000 20 1000 200)) 0 = Some 1000"
    by (simp add: safeSub_def sampleOrder_def)
  have r: "safeSub (takerTokenAmount (sampleOrder 2 20 1001 10 2002 200)) 1 = Some 2001"
    by (simp add: safeSub_def sampleOrder_def word_nat_simps)
  have c: "constraintSide (sampleOrder 2 20 1001 10 2002 200) 1000 2001 = RightRemaining"
    by (simp add: constraintSide_def sampleOrder_def)
  have run:
    "getMatchedFillAmounts (sampleExchange sampleLedger)
       (sampleOrder 1 10 2000 20 1000 200) (sampleOrder 2 20 1001 10 2002 200) 0 1 0
     = Some (SUCCESS,
         \<lparr> leftMakerTokenFilledAmount = 2000, leftTakerTokenFilledAmount = 1000,
           leftMakerFeeAmountPaid = 0, leftTakerFeeAmountPaid = 0,
           rightMakerTokenFilledAmount = 1000, rightTakerTokenFilledAmount = 2001,
           rightMakerFeeAmountPaid = 0, rightTakerFeeAmountPaid = 0 \<rparr>)"
    by (simp add: sample_defs fill_defs word_nat_simps)
  from right_constraint_fill [OF l r c run] l r c run show ?thesis
    by (simp add: sampleExchange_def)
qed

subsection \<open>What matchOrders does before it settles\<close>

lemma matchOrders_Returned_cases:
  assumes "matchOrders ex left right leftSignature rightSignature t = Returned a b effs"
  shows "(\<exists>st h. effs = [ExchangeStatus st h] \<and> st \<noteq> ORDER_FILLABLE \<and> a = 0 \<and> b = 0)
         \<or> (\<exists>h f st m.
               getOrderStatus ex left leftSignature = (h, ORDER_FILLABLE, f)
               \<and> validateMatchOrdersContextOrRevert left right = Some ()
               \<and> getMatchedFillAmounts ex left right f f t = Some (st, m)
               \<and> a = f \<and> b = f
               \<and> effs =
                   [ SettleMatchedOrders left right m (getCurrentContextAddress ex),
                     UpdateFilledState left h
                       (leftMakerTokenFilledAmount m) (leftTakerTokenFilledAmount m)
                       (leftMakerFeeAmountPaid m) (leftTakerFeeAmountPaid m),
                     UpdateFilledState right 0
                       (rightMakerTokenFilledAmount m) (rightTakerTokenFilledAmount m)
                       (rightMakerFeeAmountPaid m) (rightTakerFeeAmountPaid m) ])"
proof (cases "getOrderStatus ex left leftSignature")
  case (fields h st f)
  show ?thesis
  proof (cases "st = ORDER_FILLABLE")
    case False
    with assms fields show ?thesis
      by (auto simp: match_defs Let_def)
  next
    case True
    with assms fields show ?thesis
      by (auto simp: matchOrders_def leftStatusQuery_def rightStatusQuery_def
            initialLocals_def Let_def
          split: option.splits prod.splits if_splits)
  qed
qed

text \<open>
  A failed check of the context reverts the call, so that no settlement and no write to
  the ledger is observed: what \<open>validateMatchOrdersContextOrRevert\<close> rejects is rejected.
\<close>

lemma matchOrders_failed_validation:
  assumes "validateMatchOrdersContextOrRevert left right = None"
  shows "matchOrders ex left right leftSignature rightSignature t = Reverted
         \<or> (\<exists>st h. matchOrders ex left right leftSignature rightSignature t
                      = Returned 0 0 [ExchangeStatus st h])"
proof (cases "matchOrders ex left right leftSignature rightSignature t")
  case Reverted
  then show ?thesis by simp
next
  case (Returned a b effs)
  from matchOrders_Returned_cases [OF this] assms Returned show ?thesis by auto
qed

text \<open>
  Once the left order is Fillable and the context check passes, the match is settled and
  written to the ledger with whatever \<open>getMatchedFillAmounts\<close> returns: neither the
  status of the right order nor the status of the fill computation is looked at.
\<close>

lemma matchOrders_settles:
  assumes "getOrderStatus ex left leftSignature = (h, ORDER_FILLABLE, f)"
    and "validateMatchOrdersContextOrRevert left right = Some ()"
    and "getMatchedFillAmounts ex left right f f t = Some (st, m)"
    and "settleMatchedOrders ex left right m (getCurrentContextAddress ex)"
    and "updateFilledState ex left h
           (leftMakerTokenFilledAmount m) (leftTakerTokenFilledAmount m)
           (leftMakerFeeAmountPaid m) (leftTakerFeeAmountPaid m)"
    and "updateFilledState ex right 0
           (rightMakerTokenFilledAmount m) (rightTakerTokenFilledAmount m)
           (rightMakerFeeAmountPaid m) (rightTakerFeeAmountPaid m)"
  shows "matchOrders ex left right leftSignature rightSignature t =
           Returned f f
             [ SettleMatchedOrders left right m (getCurrentContextAddress ex),
               UpdateFilledState left h
                 (leftMakerTokenFilledAmount m) (leftTakerTokenFilledAmount m)
                 (leftMakerFeeAmountPaid m) (leftTakerFeeAmountPaid m),
               UpdateFilledState right 0
                 (rightMakerTokenFilledAmount m) (rightTakerTokenFilledAmount m)
                 (rightMakerFeeAmountPaid m) (rightTakerFeeAmountPaid m) ]"
  using assms
  by (simp add: matchOrders_def leftStatusQuery_def rightStatusQuery_def
        initialLocals_def Let_def)

text \<open>
  C2. The claim wants every pair of orders with mismatched assets rejected. The source
  compares \<open>left.makerTokenAddress\<close> with \<open>right.takerTokenAmount\<close> and
  \<open>left.takerTokenAddress\<close> with \<open>right.makerTokenAmount\<close> (lines 30 and 31), never two
  token addresses. The left order below gives token 5 and the right order takes token
  6, yet the right order's amounts are 5 and 7, the numbers of the left order's two
  tokens: the check passes and the match is settled and written to the ledger.
\<close>

theorem matchOrders_settles_mismatched_assets:
  "makerTokenAddress (sampleOrder 1 5 5 7 7 200) \<noteq> takerTokenAddress (sampleOrder 2 7 7 6 5 200)
   \<and> validateMatchOrdersContextOrRevert (sampleOrder 1 5 5 7 7 200) (sampleOrder 2 7 7 6 5 200)
       = Some ()
   \<and> matchOrders (sampleExchange emptyLedger)
        (sampleOrder 1 5 5 7 7 200) (sampleOrder 2 7 7 6 5 200) [] [] 0
      = Returned 0 0
          [ SettleMatchedOrders (sampleOrder 1 5 5 7 7 200) (sampleOrder 2 7 7 6 5 200)
              \<lparr> leftMakerTokenFilledAmount = 5, leftTakerTokenFilledAmount = 7,
                leftMakerFeeAmountPaid = 0, leftTakerFeeAmountPaid = 0,
                rightMakerTokenFilledAmount = 7, rightTakerTokenFilledAmount = 5,
                rightMakerFeeAmountPaid = 0, rightTakerFeeAmountPaid = 0 \<rparr> 9,
            UpdateFilledState (sampleOrder 1 5 5 7 7 200) 1 5 7 0 0,
            UpdateFilledState (sampleOrder 2 7 7 6 5 200) 0 7 5 0 0 ]"
  by (simp add: sample_defs fill_defs match_defs)

text \<open>
  C3. The claim wants the match rejected when either order is not Fillable. The block
  under "Get right status" (lines 169 to 178) queries the left order a second time, so
  the status of the right order is never looked at. Below the left order is Fillable,
  the right order has expired, and the match is settled and written to the ledger.
\<close>

theorem matchOrders_settles_expired_right_order:
  "getOrderStatus (sampleExchange emptyLedger) (sampleOrder 1 5 5 7 7 200) []
     = (1, ORDER_FILLABLE, 0)
   \<and> getOrderStatus (sampleExchange emptyLedger) (sampleOrder 2 7 7 5 5 50) []
     = (2, ORDER_EXPIRED, 0)
   \<and> matchOrders (sampleExchange emptyLedger)
        (sampleOrder 1 5 5 7 7 200) (sampleOrder 2 7 7 5 5 50) [] [] 0
      = Returned 0 0
          [ SettleMatchedOrders (sampleOrder 1 5 5 7 7 200) (sampleOrder 2 7 7 5 5 50)
              \<lparr> leftMakerTokenFilledAmount = 5, leftTakerTokenFilledAmount = 7,
                leftMakerFeeAmountPaid = 0, leftTakerFeeAmountPaid = 0,
                rightMakerTokenFilledAmount = 7, rightTakerTokenFilledAmount = 5,
                rightMakerFeeAmountPaid = 0, rightTakerFeeAmountPaid = 0 \<rparr> 9,
            UpdateFilledState (sampleOrder 1 5 5 7 7 200) 1 5 7 0 0,
            UpdateFilledState (sampleOrder 2 7 7 5 5 50) 0 7 5 0 0 ]"
  by (simp add: sample_defs fill_defs match_defs)

text \<open>
  C4. The claim wants the match aborted when \<open>getMatchedFillAmounts\<close> reports a status
  other than SUCCESS. Line 188 stores that status and no line reads it. Below the fill
  of the right order comes out as zero, the calculator reports
  \<open>TAKER_TOKEN_FILL_AMOUNT_TOO_LOW\<close>, and \<open>matchOrders\<close> settles the half-filled amounts
  and writes both ledger entries.
\<close>

theorem matchOrders_settles_failed_fill:
  "getMatchedFillAmounts (sampleExchange emptyLedger)
     (sampleOrder 1 5 10 1 2 200) (sampleOrder 2 1 1 5 5 200) 0 0 0
   = Some (TAKER_TOKEN_FILL_AMOUNT_TOO_LOW,
       \<lparr> leftMakerTokenFilledAmount = 10, leftTakerTokenFilledAmount = 2,
         leftMakerFeeAmountPaid = 0, leftTakerFeeAmountPaid = 0,
         rightMakerTokenFilledAmount = 0, rightTakerTokenFilledAmount = 0,
         rightMakerFeeAmountPaid = 0, rightTakerFeeAmountPaid = 0 \<rparr>)
   \<and> matchOrders (sampleExchange emptyLedger)
        (sampleOrder 1 5 10 1 2 200) (sampleOrder 2 1 1 5 5 200) [] [] 0
      = Returned 0 0
          [ SettleMatchedOrders (sampleOrder 1 5 10 1 2 200) (sampleOrder 2 1 1 5 5 200)
              \<lparr> leftMakerTokenFilledAmount = 10, leftTakerTokenFilledAmount = 2,
                leftMakerFeeAmountPaid = 0, leftTakerFeeAmountPaid = 0,
                rightMakerTokenFilledAmount = 0, rightTakerTokenFilledAmount = 0,
                rightMakerFeeAmountPaid = 0, rightTakerFeeAmountPaid = 0 \<rparr> 9,
            UpdateFilledState (sampleOrder 1 5 10 1 2 200) 1 10 2 0 0,
            UpdateFilledState (sampleOrder 2 1 1 5 5 200) 0 0 0 0 0 ]"
  by (simp add: sample_defs fill_defs match_defs)

text \<open>
  C8. The claim wants a product beyond 256 bits to abort the match. The products of
  lines 37, 38, 56 and 57 are plain \<open>uint256\<close> multiplications (both places carry the
  comment "TODO: SafeMath"). Below the left order asks \<open>2 ^ 255\<close> for 1 and the right
  order asks 2 for 1: the product of the taker amounts is \<open>2 ^ 256\<close> and wraps to 0, the
  cross-rate check \<open>1 \<times> 1 \<ge> 0\<close> passes, and the match goes on to the settlement and to
  the ledger.
\<close>

theorem matchOrders_wrapped_cross_rate:
  "2 ^ 256 \<le> unat (takerTokenAmount (sampleOrder 1 2 1 1 (2 ^ 255) 200))
               * unat (takerTokenAmount (sampleOrder 2 1 1 2 2 200))
   \<and> unat (makerTokenAmount (sampleOrder 1 2 1 1 (2 ^ 255) 200))
       * unat (makerTokenAmount (sampleOrder 2 1 1 2 2 200)) = 1
   \<and> validateMatchOrdersContextOrRevert
        (sampleOrder 1 2 1 1 (2 ^ 255) 200) (sampleOrder 2 1 1 2 2 200) = Some ()
   \<and> matchOrders (sampleExchange emptyLedger)
        (sampleOrder 1 2 1 1 (2 ^ 255) 200) (sampleOrder 2 1 1 2 2 200) [] [] 0
      = Returned 0 0
          [ SettleMatchedOrders (sampleOrder 1 2 1 1 (2 ^ 255) 200) (sampleOrder 2 1 1 2 2 200)
              \<lparr> leftMakerTokenFilledAmount = 0, leftTakerTokenFilledAmount = 0,
                leftMakerFeeAmountPaid = 0, leftTakerFeeAmountPaid = 0,
                rightMakerTokenFilledAmount = 1, rightTakerTokenFilledAmount = 2,
                rightMakerFeeAmountPaid = 0, rightTakerFeeAmountPaid = 0 \<rparr> 9,
            UpdateFilledState (sampleOrder 1 2 1 1 (2 ^ 255) 200) 1 0 0 0 0,
            UpdateFilledState (sampleOrder 2 1 1 2 2 200) 0 1 2 0 0 ]"
  by (simp add: sample_defs fill_defs match_defs word_nat_simps)

subsection \<open>The second status query\<close>

text \<open>
  C9, as the claim words it, has the second query write the left order's hash and
  filled-amount variables. The source assigns \<open>leftOrderHash\<close>, \<open>status\<close> and
  \<open>rightFilledAmount\<close>: for a left order with 5 filled, \<open>rightFilledAmount\<close> is 5 after
  the query, where the reading of the claim leaves it at 0.
\<close>

theorem rightStatusQuery_counterexample:
  "rightFilledAmount
     (rightStatusQuery (sampleExchange sampleLedger)
        (sampleOrder 3 10 10 20 20 200) (sampleOrder 4 20 20 10 10 200) [] []
        (leftStatusQuery (sampleExchange sampleLedger) (sampleOrder 3 10 10 20 20 200) []
           initialLocals)) = 5
   \<and> rightFilledAmount
       (rightStatusQuery_as_worded (sampleExchange sampleLedger)
          (sampleOrder 3 10 10 20 20 200) (sampleOrder 4 20 20 10 10 200) [] []
          (leftStatusQuery (sampleExchange sampleLedger) (sampleOrder 3 10 10 20 20 200) []
             initialLocals)) = 0
   \<and> rightStatusQuery (sampleExchange sampleLedger)
        (sampleOrder 3 10 10 20 20 200) (sampleOrder 4 20 20 10 10 200) [] []
        (leftStatusQuery (sampleExchange sampleLedger) (sampleOrder 3 10 10 20 20 200) []
           initialLocals)
     \<noteq> rightStatusQuery_as_worded (sampleExchange sampleLedger)
        (sampleOrder 3 10 10 20 20 200) (sampleOrder 4 20 20 10 10 200) [] []
        (leftStatusQuery (sampleExchange sampleLedger) (sampleOrder 3 10 10 20 20 200) []
           initialLocals)"
  by (simp add: sample_defs rightStatusQuery_def rightStatusQuery_as_worded_def
        leftStatusQuery_def initialLocals_def)

text \<open>
  C9, as the code has it. In every execution of \<open>matchOrders\<close> that reaches the ledger
  updates, the second status query was made on the left order with the left signature
  and wrote \<open>leftOrderHash\<close>, \<open>status\<close> and \<open>rightFilledAmount\<close>; \<open>rightOrderHash\<close> is still
  zero. So both filled amounts handed to the calculator and returned are the left
  order's, the left update is keyed by the left order's hash, and the update of the right
  order is keyed by the zero hash.
\<close>

theorem matchOrders_ledger_update_stage:
  assumes "matchOrders ex left right leftSignature rightSignature t = Returned a b effs"
    and "list_ex isLedgerUpdate effs"
  shows "rightStatusQuery ex left right leftSignature rightSignature
           (leftStatusQuery ex left leftSignature initialLocals)
         = \<lparr> status = ORDER_FILLABLE,
             leftOrderHash = fst (getOrderStatus ex left leftSignature),
             rightOrderHash = 0,
             leftFilledAmount = snd (snd (getOrderStatus ex left leftSignature)),
             rightFilledAmount = snd (snd (getOrderStatus ex left leftSignature)) \<rparr>
         \<and> a = snd (snd (getOrderStatus ex left leftSignature))
         \<and> b = snd (snd (getOrderStatus ex left leftSignature))
         \<and> (\<exists>st m.
               getMatchedFillAmounts ex left right
                 (snd (snd (getOrderStatus ex left leftSignature)))
                 (snd (snd (getOrderStatus ex left leftSignature))) t = Some (st, m)
               \<and> effs =
                   [ SettleMatchedOrders left right m (getCurrentContextAddress ex),
                     UpdateFilledState left (fst (getOrderStatus ex left leftSignature))
                       (leftMakerTokenFilledAmount m) (leftTakerTokenFilledAmount m)
                       (leftMakerFeeAmountPaid m) (leftTakerFeeAmountPaid m),
                     UpdateFilledState right 0
                       (rightMakerTokenFilledAmount m) (rightTakerTokenFilledAmount m)
                       (rightMakerFeeAmountPaid m) (rightTakerFeeAmountPaid m) ])"
proof -
  from matchOrders_Returned_cases [OF assms(1)] assms(2)
  obtain h f st m where
    q: "getOrderStatus ex left leftSignature = (h, ORDER_FILLABLE, f)"
    and g: "getMatchedFillAmounts ex left right f f t = Some (st, m)"
    and ab: "a = f" "b = f"
    and e: "effs =
              [ SettleMatchedOrders left right m (getCurrentContextAddress ex),
                UpdateFilledState left h
                  (leftMakerTokenFilledAmount m) (leftTakerTokenFilledAmount m)
                  (leftMakerFeeAmountPaid m) (leftTakerFeeAmountPaid m),
                UpdateFilledState right 0
                  (rightMakerTokenFilledAmount m) (rightTakerTokenFilledAmount m)
                  (rightMakerFeeAmountPaid m) (rightTakerFeeAmountPaid m) ]"
    by auto
  have v: "rightStatusQuery ex left right leftSignature rightSignature
             (leftStatusQuery ex left leftSignature initialLocals)
           = \<lparr> status = ORDER_FILLABLE, leftOrderHash = h, rightOrderHash = 0,
               leftFilledAmount = f, rightFilledAmount = f \<rparr>"
    by (simp add: rightStatusQuery_def leftStatusQuery_def initialLocals_def q)
  from q g ab e v show ?thesis by simp
qed

theorem matchOrders_ledger_update_stage_witness:
  "matchOrders (sampleExchange sampleLedger)
     (sampleOrder 3 10 10 20 20 200) (sampleOrder 4 20 20 10 10 200) [] [] 0
   = Returned 5 5
       [ SettleMatchedOrders (sampleOrder 3 10 10 20 20 200) (sampleOrder 4 20 20 10 10 200)
           \<lparr> leftMakerTokenFilledAmount = 7, leftTakerTokenFilledAmount = 15,
             leftMakerFeeAmountPaid = 0, leftTakerFeeAmountPaid = 0,
             rightMakerTokenFilledAmount = 28, rightTakerTokenFilledAmount = 14,
             rightMakerFeeAmountPaid = 0, rightTakerFeeAmountPaid = 0 \<rparr> 9,
         UpdateFilledState (sampleOrder 3 10 10 20 20 200) 3 7 15 0 0,
         UpdateFilledState (sampleOrder 4 20 20 10 10 200) 0 28 14 0 0 ]
   \<and> getOrderStatus (sampleExchange sampleLedger) (sampleOrder 3 10 10 20 20 200) []
       = (3, ORDER_FILLABLE, 5)
   \<and> getOrderStatus (sampleExchange sampleLedger) (sampleOrder 4 20 20 10 10 200) []
       = (4, ORDER_FILLABLE, 0)
   \<and> rightStatusQuery (sampleExchange sampleLedger)
        (sampleOrder 3 10 10 20 20 200) (sampleOrder 4 20 20 10 10 200) [] []
        (leftStatusQuery (sampleExchange sampleLedger) (sampleOrder 3 10 10 20 20 200) []
           initialLocals)
       = \<lparr> status = ORDER_FILLABLE, leftOrderHash = 3, rightOrderHash = 0,
           leftFilledAmount = 5, rightFilledAmount = 5 \<rparr>"
proof -
  have run:
    "matchOrders (sampleExchange sampleLedger)
       (sampleOrder 3 10 10 20 20 200) (sampleOrder 4 20 20 10 10 200) [] [] 0
     = Returned 5 5
         [ SettleMatchedOrders (sampleOrder 3 10 10 20 20 200) (sampleOrder 4 20 20 10 10 200)
             \<lparr> leftMakerTokenFilledAmount = 7, leftTakerTokenFilledAmount = 15,
               leftMakerFeeAmountPaid = 0, leftTakerFeeAmountPaid = 0,
               rightMakerTokenFilledAmount = 28, rightTakerTokenFilledAmount = 14,
               rightMakerFeeAmountPaid = 0, rightTakerFeeAmountPaid = 0 \<rparr> 9,
           UpdateFilledState (sampleOrder 3 10 10 20 20 200) 3 7 15 0 0,
           UpdateFilledState (sampleOrder 4 20 20 10 10 200) 0 28 14 0 0 ]"
    by (simp add: sample_defs fill_defs match_defs)
  have upd:
    "list_ex isLedgerUpdate
       [ SettleMatchedOrders (sampleOrder 3 10 10 20 20 200) (sampleOrder 4 20 20 10 10 200)
           \<lparr> leftMakerTokenFilledAmount = 7, leftTakerTokenFilledAmount = 15,
             leftMakerFeeAmountPaid = 0, leftTakerFeeAmountPaid = 0,
             rightMakerTokenFilledAmount = 28, rightTakerTokenFilledAmount = 14,
             rightMakerFeeAmountPaid = 0, rightTakerFeeAmountPaid = 0 \<rparr> 9,
         UpdateFilledState (sampleOrder 3 10 10 20 20 200) 3 7 15 0 0,
         UpdateFilledState (sampleOrder 4 20 20 10 10 200) 0 28 14 0 0 ]"
    by simp
  have q3: "getOrderStatus (sampleExchange sampleLedger) (sampleOrder 3 10 10 20 20 200) []
       = (3, ORDER_FILLABLE, 5)"
    by (simp add: sample_defs word_nat_simps)
  have q4: "getOrderStatus (sampleExchange sampleLedger) (sampleOrder 4 20 20 10 10 200) []
       = (4, ORDER_FILLABLE, 0)"
    by (simp add: sample_defs word_nat_simps)
  from matchOrders_ledger_update_stage [OF run upd] run q3 q4 show ?thesis by simp
qed

section \<open>Properties of signOrderHashAsync\<close>








end
